theory Spec2Isabelle
  imports Main
begin

section \<open>The OAuth token lifecycle of sales_bot/ghl_api.py\<close>

text \<open>
  A shallow embedding of the classes \<open>GHLAPI\<close> and \<open>GHLClient\<close> of
  \<^verbatim>\<open>src/sales_bot/ghl_api.py\<close>. The instance fields of \<open>GHLAPI\<close> are a record that
  every method takes and returns; the database, the provider's HTTP endpoints and the
  clock are a second record, the world, together with an environment that says how the
  surroundings answer. A Python exception is the \<open>Inl\<close> of a sum, so every
  \<^verbatim>\<open>raise\<close> and every \<^verbatim>\<open>except\<close> of the source is a branch of the model.

  One call of a method is modelled from its first statement to its return; the
  interleaving of several asyncio tasks at the \<^verbatim>\<open>await\<close> points is not. The calls
  of \<^verbatim>\<open>logger\<close> only write to the log and are left out.
\<close>

subsection \<open>Python values and exceptions\<close>

text \<open>
  The values that \<^verbatim>\<open>response.json()\<close> decodes and that the database driver hands
  back. A \<open>PDict\<close> lists the items of a dict; the value at a key is \<open>map_of\<close> of the
  list. Numbers with a fraction are not needed: the code treats every number alike.
\<close>

datatype pyval =
    PNone
  | PBool bool
  | PInt int
  | PStr string
  | PList "pyval list"
  | PDict "(string \<times> pyval) list"

datatype error =
    ValueError string
  | OperationalError string
  | DatabaseError string
  | TransportError string
  | HTTPStatusError int
  | HTTPError int
  | JSONDecodeError
  | KeyError string
  | TypeError
  | AttributeError

text \<open>\<^verbatim>\<open>d[k]\<close>: a missing key raises KeyError, a value that is no dict raises TypeError.\<close>

fun subscript :: "pyval \<Rightarrow> string \<Rightarrow> error + pyval" where
  "subscript (PDict kvs) k =
     (case map_of kvs k of None \<Rightarrow> Inl (KeyError k) | Some v \<Rightarrow> Inr v)"
| "subscript PNone k = Inl TypeError"
| "subscript (PBool b) k = Inl TypeError"
| "subscript (PInt n) k = Inl TypeError"
| "subscript (PStr s) k = Inl TypeError"
| "subscript (PList xs) k = Inl TypeError"

text \<open>\<^verbatim>\<open>d.get(k, default)\<close>: only a dict has the method.\<close>

fun dict_get :: "pyval \<Rightarrow> string \<Rightarrow> pyval \<Rightarrow> error + pyval" where
  "dict_get (PDict kvs) k d = Inr (case map_of kvs k of None \<Rightarrow> d | Some v \<Rightarrow> v)"
| "dict_get PNone k d = Inl AttributeError"
| "dict_get (PBool b) k d = Inl AttributeError"
| "dict_get (PInt n) k d = Inl AttributeError"
| "dict_get (PStr s) k d = Inl AttributeError"
| "dict_get (PList xs) k d = Inl AttributeError"

fun isinstance_dict :: "pyval \<Rightarrow> bool" where
  "isinstance_dict (PDict kvs) = True"
| "isinstance_dict PNone = False"
| "isinstance_dict (PBool b) = False"
| "isinstance_dict (PInt n) = False"
| "isinstance_dict (PStr s) = False"
| "isinstance_dict (PList xs) = False"

subsection \<open>The surroundings: token table, HTTP traffic, environment\<close>

text \<open>
  A row of the table \<^verbatim>\<open>tokens\<close>: the columns the two SQL statements name. The
  table keeps the values it is given, and time is counted in ticks.
\<close>

record row =
  row_id :: int
  row_access_token :: pyval
  row_refresh_token :: pyval
  updated_at :: nat

text \<open>A call of \<^verbatim>\<open>client.request(method, url, headers=..., **kwargs)\<close> of httpx.\<close>

record request =
  req_method :: string
  req_url :: string
  req_headers :: "(string \<times> string) list"
  req_kwargs :: "(string \<times> pyval) list"

text \<open>A call of \<^verbatim>\<open>requests.post(url, data=..., headers=...)\<close>.\<close>

record post =
  post_url :: string
  post_data :: "(string \<times> pyval) list"
  post_headers :: "(string \<times> string) list"

text \<open>
  An HTTP response: its status and what \<^verbatim>\<open>.json()\<close> decodes from its body,
  \<open>None\<close> when the body is not JSON.
\<close>

record response =
  status_code :: int
  json_body :: "pyval option"

text \<open>
  The world: the rows of the table, the database clock read by \<^verbatim>\<open>NOW()\<close>, the number
  of database sessions opened so far, and the HTTP calls made so far, in order.
\<close>

record world =
  tokens :: "row list"
  now :: nat
  db_sessions :: nat
  api_calls :: "request list"
  posts :: "post list"

text \<open>
  The environment answers for everything outside the module: \<open>db_fault\<close> is the
  exception the next database session raises before it commits (\<open>None\<close>: it works),
  \<open>httpx_request\<close> and \<open>requests_post\<close> are the outcome of an HTTP call (\<open>Inl\<close>: the
  transport raised), \<open>str_of\<close> is Python's \<^verbatim>\<open>str\<close>. Each may depend on the whole
  history, which the world holds.
\<close>

record env =
  db_fault :: "world \<Rightarrow> error option"
  httpx_request :: "world \<Rightarrow> request \<Rightarrow> error + response"
  requests_post :: "world \<Rightarrow> post \<Rightarrow> error + response"
  str_of :: "pyval \<Rightarrow> string"

text \<open>
  \<^verbatim>\<open>response.raise_for_status()\<close> of the two HTTP libraries the module calls. That
  of httpx (used by \<open>_make_request\<close>) raises HTTPStatusError unless the status is a
  success, 200 to 299; that of requests (used for the token endpoint) raises HTTPError
  for a client or server error, 400 to 599, and for no other status.
\<close>

definition httpx_raise_for_status :: "response \<Rightarrow> error + unit" where
  "httpx_raise_for_status r =
     (if 200 \<le> status_code r \<and> status_code r \<le> 299 then Inr ()
      else Inl (HTTPStatusError (status_code r)))"

definition requests_raise_for_status :: "response \<Rightarrow> error + unit" where
  "requests_raise_for_status r =
     (if 400 \<le> status_code r \<and> status_code r < 600 then Inl (HTTPError (status_code r))
      else Inr ())"

definition response_json :: "response \<Rightarrow> error + pyval" where
  "response_json r = (case json_body r of None \<Rightarrow> Inl JSONDecodeError | Some v \<Rightarrow> Inr v)"

text \<open>
  \<^verbatim>\<open>SELECT ... FROM tokens ORDER BY updated_at DESC LIMIT 1\<close>, then \<^verbatim>\<open>fetchone()\<close>:
  a row with the greatest \<open>updated_at\<close>, the first such row of the list (SQL leaves the
  choice among equals open), \<open>None\<close> on an empty table.
\<close>

fun select_latest :: "row list \<Rightarrow> row option" where
  "select_latest [] = None"
| "select_latest (x # xs) =
     (case select_latest xs of
        None \<Rightarrow> Some x
      | Some y \<Rightarrow> if updated_at x < updated_at y then Some y else Some x)"

text \<open>
  \<^verbatim>\<open>UPDATE tokens SET access_token=%s, refresh_token=%s, updated_at=NOW() WHERE id=1\<close>:
  every row whose id is 1 is rewritten, no row is added.
\<close>

definition sql_update :: "pyval \<Rightarrow> pyval \<Rightarrow> nat \<Rightarrow> row list \<Rightarrow> row list" where
  "sql_update a r t rows =
     map (\<lambda>x. if row_id x = 1
               then x\<lparr>row_access_token := a, row_refresh_token := r, updated_at := t\<rparr>
               else x) rows"

subsection \<open>class GHLAPI\<close>

text \<open>
  The instance fields. The two tokens are annotated \<^verbatim>\<open>str\<close>, but nothing checks
  what the database or the token response delivers, so they are Python values here.
\<close>

record ghlapi =
  base_url :: string
  oauth_url :: string
  token_url :: string
  client_id :: string
  client_secret :: string
  access_token :: pyval
  refresh_token :: pyval
  headers :: "(string \<times> string) list"

definition update_headers :: "env \<Rightarrow> ghlapi \<Rightarrow> ghlapi" where
  "update_headers e s =
     s\<lparr>headers :=
        [(''Authorization'', ''Bearer '' @ str_of e (access_token s)),
         (''Content-Type'', ''application/json''),
         (''Version'', ''2021-04-15'')]\<rparr>"

text \<open>
  \<open>get_tokens\<close>: an OperationalError of the driver becomes a ValueError, any other
  exception (the ValueError of the empty table among them) is raised again as it is.
\<close>

definition get_tokens :: "env \<Rightarrow> world \<Rightarrow> (error + pyval \<times> pyval) \<times> world" where
  "get_tokens e w =
     (let w1 = w\<lparr>db_sessions := db_sessions w + 1\<rparr> in
      case db_fault e w of
        Some (OperationalError m) \<Rightarrow>
          (Inl (ValueError (''Failed to connect to database: '' @ m)), w1)
      | Some x \<Rightarrow> (Inl x, w1)
      | None \<Rightarrow>
          (case select_latest (tokens w) of
             None \<Rightarrow> (Inl (ValueError ''No tokens found in database''), w1)
           | Some t \<Rightarrow> (Inr (row_access_token t, row_refresh_token t), w1)))"

text \<open>
  \<open>update_tokens\<close>: the instance fields are assigned after \<^verbatim>\<open>conn.commit()\<close> and
  the two \<^verbatim>\<open>close()\<close> calls, inside the same \<^verbatim>\<open>try\<close>.
\<close>

definition update_tokens ::
  "env \<Rightarrow> world \<Rightarrow> ghlapi \<Rightarrow> pyval \<Rightarrow> pyval \<Rightarrow> (error + unit) \<times> world \<times> ghlapi" where
  "update_tokens e w s new_access_token new_refresh_token =
     (let w1 = w\<lparr>db_sessions := db_sessions w + 1\<rparr> in
      case db_fault e w of
        Some (OperationalError m) \<Rightarrow>
          (Inl (ValueError (''Failed to connect to database: '' @ m)), w1, s)
      | Some x \<Rightarrow> (Inl x, w1, s)
      | None \<Rightarrow>
          (Inr (),
           w1\<lparr>tokens := sql_update new_access_token new_refresh_token (now w) (tokens w)\<rparr>,
           update_headers e
             (s\<lparr>access_token := new_access_token, refresh_token := new_refresh_token\<rparr>)))"

text \<open>The form that \<open>refresh_access_token\<close> posts to the token endpoint.\<close>

definition refresh_post :: "ghlapi \<Rightarrow> post" where
  "refresh_post s =
     \<lparr>post_url = token_url s,
      post_data =
        [(''grant_type'', PStr ''refresh_token''),
         (''refresh_token'', refresh_token s),
         (''client_id'', PStr (client_id s)),
         (''client_secret'', PStr (client_secret s))],
      post_headers = [(''Content-Type'', ''application/x-www-form-urlencoded'')]\<rparr>"

text \<open>
  \<open>refresh_access_token\<close>: the whole body is inside \<^verbatim>\<open>try\<close>, and
  \<^verbatim>\<open>except Exception\<close> turns every exception into the result False.
\<close>

definition refresh_access_token ::
  "env \<Rightarrow> world \<Rightarrow> ghlapi \<Rightarrow> (error + bool) \<times> world \<times> ghlapi" where
  "refresh_access_token e w s =
     (let w1 = w\<lparr>posts := posts w @ [refresh_post s]\<rparr> in
      case requests_post e w (refresh_post s) of
        Inl x \<Rightarrow> (Inr False, w1, s)
      | Inr resp \<Rightarrow>
          (case requests_raise_for_status resp of
             Inl x \<Rightarrow> (Inr False, w1, s)
           | Inr u \<Rightarrow>
               (case response_json resp of
                  Inl x \<Rightarrow> (Inr False, w1, s)
                | Inr toks \<Rightarrow>
                    (case subscript toks ''access_token'' of
                       Inl x \<Rightarrow> (Inr False, w1, s)
                     | Inr new_access_token \<Rightarrow>
                         (case subscript toks ''refresh_token'' of
                            Inl x \<Rightarrow> (Inr False, w1, s)
                          | Inr new_refresh_token \<Rightarrow>
                              (case update_tokens e w1 s new_access_token new_refresh_token of
                                 (Inl x, w2, s2) \<Rightarrow> (Inr False, w2, s2)
                               | (Inr u2, w2, s2) \<Rightarrow> (Inr True, w2, s2)))))))"

text \<open>The request that \<open>_make_request\<close> builds from the instance's current headers.\<close>

definition mk_request ::
  "ghlapi \<Rightarrow> string \<Rightarrow> string \<Rightarrow> (string \<times> pyval) list \<Rightarrow> request" where
  "mk_request s method endpoint kwargs =
     \<lparr>req_method = method,
      req_url = base_url s @ ''/'' @ endpoint,
      req_headers = headers s,
      req_kwargs = kwargs\<rparr>"

text \<open>The last two statements of the \<^verbatim>\<open>try\<close> block of \<open>_make_request\<close>.\<close>

definition checked_json :: "response \<Rightarrow> error + pyval" where
  "checked_json r =
     (case httpx_raise_for_status r of Inl x \<Rightarrow> Inl x | Inr u \<Rightarrow> response_json r)"

text \<open>
  \<open>_make_request\<close>: \<^verbatim>\<open>except Exception\<close> logs and raises the same exception again,
  so an exception of the body is the exception of the call.
\<close>

definition make_request ::
  "env \<Rightarrow> world \<Rightarrow> ghlapi \<Rightarrow> string \<Rightarrow> string \<Rightarrow> (string \<times> pyval) list
     \<Rightarrow> (error + pyval) \<times> world \<times> ghlapi" where
  "make_request e w s method endpoint kwargs =
     (let w1 = w\<lparr>api_calls := api_calls w @ [mk_request s method endpoint kwargs]\<rparr> in
      case httpx_request e w (mk_request s method endpoint kwargs) of
        Inl x \<Rightarrow> (Inl x, w1, s)
      | Inr resp \<Rightarrow>
          if status_code resp = 401 then
            (case refresh_access_token e w1 s of
               (Inl x, w2, s2) \<Rightarrow> (Inl x, w2, s2)
             | (Inr False, w2, s2) \<Rightarrow> (checked_json resp, w2, s2)
             | (Inr True, w2, s2) \<Rightarrow>
                 (let s3 = update_headers e s2;
                      w3 = w2\<lparr>api_calls :=
                             api_calls w2 @ [mk_request s3 method endpoint kwargs]\<rparr> in
                  case httpx_request e w2 (mk_request s3 method endpoint kwargs) of
                    Inl x \<Rightarrow> (Inl x, w3, s3)
                  | Inr resp2 \<Rightarrow> (checked_json resp2, w3, s3)))
          else (checked_json resp, w1, s))"

text \<open>
  \<open>get_contact_pipeline\<close> and \<open>send_sms\<close>: the body is inside \<^verbatim>\<open>try\<close>, and
  \<^verbatim>\<open>except Exception\<close> returns the default.
\<close>

definition get_contact_pipeline ::
  "env \<Rightarrow> world \<Rightarrow> ghlapi \<Rightarrow> string \<Rightarrow> (error + pyval) \<times> world \<times> ghlapi" where
  "get_contact_pipeline e w s contact_id =
     (case make_request e w s ''GET'' (''contacts/'' @ contact_id) [] of
        (Inl x, w', s') \<Rightarrow> (Inr (PStr []), w', s')
      | (Inr data, w', s') \<Rightarrow>
          (case dict_get data ''pipeline'' (PDict []) of
             Inl x \<Rightarrow> (Inr (PStr []), w', s')
           | Inr pipeline \<Rightarrow>
               if isinstance_dict pipeline then
                 (case dict_get pipeline ''name'' (PStr []) of
                    Inl x \<Rightarrow> (Inr (PStr []), w', s')
                  | Inr pipeline_name \<Rightarrow> (Inr pipeline_name, w', s'))
               else (Inr (PStr (str_of e pipeline)), w', s')))"

definition send_sms ::
  "env \<Rightarrow> world \<Rightarrow> ghlapi \<Rightarrow> string \<Rightarrow> string \<Rightarrow> (error + bool) \<times> world \<times> ghlapi" where
  "send_sms e w s contact_id message =
     (case make_request e w s ''POST'' ''conversations/messages''
             [(''json'',
               PDict [(''contactId'', PStr contact_id),
                      (''message'', PStr message),
                      (''type'', PStr ''SMS''),
                      (''direction'', PStr ''outbound'')])] of
        (Inl x, w', s') \<Rightarrow> (Inr False, w', s')
      | (Inr data, w', s') \<Rightarrow> (Inr True, w', s'))"

subsection \<open>class GHLClient\<close>

record ghlclient =
  client_base_url :: string
  client_oauth_url :: string

definition ghlclient_init :: ghlclient where
  "ghlclient_init =
     \<lparr>client_base_url = ''https://services.leadconnectorhq.com'',
      client_oauth_url = ''https://marketplace.gohighlevel.com/oauth''\<rparr>"

text \<open>\<^verbatim>\<open>sep.join(xs)\<close> on strings.\<close>

fun join :: "string \<Rightarrow> string list \<Rightarrow> string" where
  "join sep [] = []"
| "join sep [x] = x"
| "join sep (x # y # ys) = x @ sep @ join sep (y # ys)"

text \<open>
  \<open>get_authorization_url\<close>: \<^verbatim>\<open>if state\<close> holds for a string that is neither
  None nor empty; the parameters are joined as they are.
\<close>

definition get_authorization_url ::
  "ghlclient \<Rightarrow> string \<Rightarrow> string \<Rightarrow> string option \<Rightarrow> string" where
  "get_authorization_url self cid redirect_uri st =
     (let params =
        [(''client_id'', cid),
         (''redirect_uri'', redirect_uri),
         (''response_type'', ''code''),
         (''scope'', ''contacts.readonly contacts.write conversations.readonly conversations.write locations.readonly locations.write opportunities.readonly opportunities.write users.readonly users.write'')]
        @ (case st of None \<Rightarrow> [] | Some v \<Rightarrow> if v = [] then [] else [(''state'', v)]);
          query_string = join ''&'' (map (\<lambda>(k, v). k @ ''='' @ v) params)
      in client_oauth_url self @ ''/authorize?'' @ query_string)"

text \<open>
  \<open>exchange_code_for_token\<close>: \<^verbatim>\<open>except RequestException\<close> logs and raises again;
  nothing else is caught, and the database is not used.
\<close>

definition exchange_post :: "ghlclient \<Rightarrow> string \<Rightarrow> string \<Rightarrow> string \<Rightarrow> string \<Rightarrow> post" where
  "exchange_post self code cid csecret redirect_uri =
     \<lparr>post_url = client_oauth_url self @ ''/token'',
      post_data =
        [(''grant_type'', PStr ''authorization_code''),
         (''code'', PStr code),
         (''client_id'', PStr cid),
         (''client_secret'', PStr csecret),
         (''redirect_uri'', PStr redirect_uri)],
      post_headers = []\<rparr>"

definition exchange_code_for_token ::
  "env \<Rightarrow> world \<Rightarrow> ghlclient \<Rightarrow> string \<Rightarrow> string \<Rightarrow> string \<Rightarrow> string
     \<Rightarrow> (error + pyval) \<times> world" where
  "exchange_code_for_token e w self code cid csecret redirect_uri =
     (let p = exchange_post self code cid csecret redirect_uri;
          w1 = w\<lparr>posts := posts w @ [p]\<rparr> in
      case requests_post e w p of
        Inl x \<Rightarrow> (Inl x, w1)
      | Inr resp \<Rightarrow>
          (case requests_raise_for_status resp of
             Inl x \<Rightarrow> (Inl x, w1)
           | Inr u \<Rightarrow> (response_json resp, w1)))"

subsection \<open>Example surroundings\<close>

text \<open>
  Python's \<^verbatim>\<open>str\<close> for the examples, which format strings only: a string is
  itself, None and the booleans print as in Python, and the other values, which no
  example formats, give the empty string here.
\<close>

definition demo_str :: "pyval \<Rightarrow> string" where
  "demo_str v =
     (case v of
        PStr t \<Rightarrow> t
      | PNone \<Rightarrow> ''None''
      | PBool b \<Rightarrow> (if b then ''True'' else ''False'')
      | PInt n \<Rightarrow> []
      | PList xs \<Rightarrow> []
      | PDict kvs \<Rightarrow> [])"

text \<open>An instance holding the pair A1/R1, as \<^verbatim>\<open>__init__\<close> leaves it.\<close>

definition demo_api :: ghlapi where
  "demo_api =
     \<lparr>base_url = ''https://services.leadconnectorhq.com'',
      oauth_url = ''https://marketplace.gohighlevel.com/oauth'',
      token_url = ''https://services.leadconnectorhq.com/oauth/token'',
      client_id = ''client'',
      client_secret = ''secret'',
      access_token = PStr ''A1'',
      refresh_token = PStr ''R1'',
      headers =
        [(''Authorization'', ''Bearer A1''),
         (''Content-Type'', ''application/json''),
         (''Version'', ''2021-04-15'')]\<rparr>"

text \<open>A table with the one row of id 1, written at time 5; the clock stands at 10.\<close>

definition demo_world :: world where
  "demo_world =
     \<lparr>tokens =
        [\<lparr>row_id = 1, row_access_token = PStr ''A1'', row_refresh_token = PStr ''R1'',
          updated_at = 5\<rparr>],
      now = 10, db_sessions = 0, api_calls = [], posts = []\<rparr>"

text \<open>
  A provider that rejects every bearer token but A2 with status 401 and whose token
  endpoint issues the pair A2/R2; the database works.
\<close>

definition demo_env :: env where
  "demo_env =
     \<lparr>db_fault = (\<lambda>w. None),
      httpx_request = (\<lambda>w rq.
        if map_of (req_headers rq) ''Authorization'' = Some ''Bearer A2''
        then Inr \<lparr>status_code = 200,
                  json_body = Some (PDict [(''pipeline'', PDict [(''name'', PStr ''Sales'')])])\<rparr>
        else Inr \<lparr>status_code = 401,
                  json_body = Some (PDict [(''message'', PStr ''Invalid JWT'')])\<rparr>),
      requests_post = (\<lambda>w p.
        Inr \<lparr>status_code = 200,
             json_body = Some (PDict [(''access_token'', PStr ''A2''),
                                      (''refresh_token'', PStr ''R2'')])\<rparr>),
      str_of = demo_str\<rparr>"

text \<open>A response of the token endpoint with the given status and decoded body.\<close>

definition token_response :: "int \<Rightarrow> pyval option \<Rightarrow> world \<Rightarrow> post \<Rightarrow> error + response" where
  "token_response sc b w p = Inr \<lparr>status_code = sc, json_body = b\<rparr>"



subsection \<open>Reading a query string\<close>

text \<open>
  Not part of the repository: how a URL parser first cuts a URL's query into fields,
  which is what the round trip of an authorization URL is measured against. The query
  starts after the first \<open>?\<close>, its fields are separated by \<open>&\<close>, and a field is name
  and value around its first \<open>=\<close>. Percent-decoding would follow; it changes no value
  that has neither \<open>%\<close> nor \<open>+\<close>.
\<close>

fun split_on :: "char \<Rightarrow> string \<Rightarrow> string list" where
  "split_on c [] = [[]]"
| "split_on c (x # xs) =
     (if x = c then [] # split_on c xs
      else (case split_on c xs of [] \<Rightarrow> [[x]] | y # ys \<Rightarrow> (x # y) # ys))"

definition query_pairs :: "string \<Rightarrow> (string \<times> string) list" where
  "query_pairs u =
     map (\<lambda>f. (takeWhile (\<lambda>c. c \<noteq> CHR ''='') f, drop 1 (dropWhile (\<lambda>c. c \<noteq> CHR ''='') f)))
       (split_on CHR ''&'' (drop 1 (dropWhile (\<lambda>c. c \<noteq> CHR ''?'') u)))"

section \<open>Properties\<close>

subsection \<open>Auxiliary facts\<close>

lemmas demo_defs = demo_env_def demo_world_def demo_api_def demo_str_def token_response_def

lemma select_latest_None: "select_latest xs = None \<longleftrightarrow> xs = []"
  by (induction xs) (auto split: option.splits)

lemma select_latest_max:
  "select_latest xs = Some x \<Longrightarrow> x \<in> set xs \<and> (\<forall>y\<in>set xs. updated_at y \<le> updated_at x)"
proof (induction xs arbitrary: x)
  case Nil
  then show ?case by simp
next
  case (Cons z zs)
  show ?case
  proof (cases "select_latest zs")
    case None
    with Cons.prems show ?thesis by (simp add: select_latest_None)
  next
    case (Some y)
    with Cons.IH [of y] Cons.prems show ?thesis
      by (auto split: if_splits)
  qed
qed

text \<open>
  After the UPDATE, the latest row is one the UPDATE wrote, provided a row of id 1
  exists and every other row is older than the time of the write.
\<close>

lemma select_latest_sql_update:
  assumes has1: "\<exists>x\<in>set rows. row_id x = 1"
    and older: "\<forall>x\<in>set rows. row_id x \<noteq> 1 \<longrightarrow> updated_at x < t"
  shows "\<exists>y. select_latest (sql_update a r t rows) = Some y
           \<and> row_access_token y = a \<and> row_refresh_token y = r"
proof -
  from has1 have "sql_update a r t rows \<noteq> []"
    by (auto simp: sql_update_def)
  then obtain y where y: "select_latest (sql_update a r t rows) = Some y"
    using select_latest_None [of "sql_update a r t rows"]
    by (cases "select_latest (sql_update a r t rows)") auto
  from select_latest_max [OF y]
  have mem: "y \<in> set (sql_update a r t rows)"
    and top: "\<forall>z\<in>set (sql_update a r t rows). updated_at z \<le> updated_at y"
    by simp_all
  from has1 obtain x where x: "x \<in> set rows" "row_id x = 1" by blast
  then have "x\<lparr>row_access_token := a, row_refresh_token := r, updated_at := t\<rparr>
               \<in> set (sql_update a r t rows)"
    by (force simp: sql_update_def)
  with top have le: "t \<le> updated_at y" by force
  from mem obtain x0 where x0: "x0 \<in> set rows"
    and yx: "y = (if row_id x0 = 1
                  then x0\<lparr>row_access_token := a, row_refresh_token := r, updated_at := t\<rparr>
                  else x0)"
    by (auto simp: sql_update_def)
  have "row_id x0 = 1"
  proof (rule ccontr)
    assume n: "row_id x0 \<noteq> 1"
    with yx have "y = x0" by simp
    with older x0 n le show False by force
  qed
  with yx have "row_access_token y = a \<and> row_refresh_token y = r" by simp
  with y show ?thesis by blast
qed

lemma update_tokens_Inl:
  "update_tokens e w s a r = (Inl x, w', s') \<Longrightarrow> s' = s \<and> tokens w' = tokens w"
  by (auto simp: update_tokens_def Let_def split: option.splits error.splits)

lemma update_tokens_Inr:
  "update_tokens e w s a r = (Inr u, w', s') \<Longrightarrow>
     db_fault e w = None \<and>
     s' = update_headers e (s\<lparr>access_token := a, refresh_token := r\<rparr>) \<and>
     w' = w\<lparr>db_sessions := db_sessions w + 1, tokens := sql_update a r (now w) (tokens w)\<rparr>"
  by (auto simp: update_tokens_def Let_def split: option.splits error.splits)

lemma update_tokens_traffic:
  "update_tokens e w s a r = (res, w', s') \<Longrightarrow>
     posts w' = posts w \<and> api_calls w' = api_calls w"
  by (auto simp: update_tokens_def Let_def split: option.splits error.splits)

lemma refresh_never_raises: "\<exists>b. fst (refresh_access_token e w s) = Inr b"
  by (auto simp: refresh_access_token_def Let_def split: sum.splits prod.splits)

text \<open>Every call of the refresher posts to the token endpoint once, and only that.\<close>

lemma refresh_traffic:
  "posts (fst (snd (refresh_access_token e w s))) = posts w @ [refresh_post s]
   \<and> api_calls (fst (snd (refresh_access_token e w s))) = api_calls w"
  by (auto simp: refresh_access_token_def Let_def split: sum.splits prod.splits
        dest: update_tokens_traffic)

text \<open>What the result True of the refresher implies about the steps it took.\<close>

lemma refresh_True_D:
  assumes "refresh_access_token e w s = (Inr True, w', s')"
  shows "\<exists>resp toks a r.
           requests_post e w (refresh_post s) = Inr resp \<and>
           requests_raise_for_status resp = Inr () \<and>
           response_json resp = Inr toks \<and>
           subscript toks ''access_token'' = Inr a \<and>
           subscript toks ''refresh_token'' = Inr r \<and>
           update_tokens e (w\<lparr>posts := posts w @ [refresh_post s]\<rparr>) s a r = (Inr (), w', s')"
  using assms
  by (auto simp: refresh_access_token_def Let_def split: sum.splits prod.splits)

lemma refresh_True_headers:
  assumes "refresh_access_token e w s = (Inr True, w', s')"
  shows "update_headers e s' = s'"
proof -
  from refresh_True_D [OF assms] obtain a r where
    "update_tokens e (w\<lparr>posts := posts w @ [refresh_post s]\<rparr>) s a r = (Inr (), w', s')"
    by blast
  from update_tokens_Inr [OF this] show ?thesis
    by (simp add: update_headers_def)
qed

text \<open>The ways in which \<open>_make_request\<close> raises.\<close>

lemma make_request_failures:
  "(httpx_request e w (mk_request s m ep kw) = Inl x \<longrightarrow>
      fst (make_request e w s m ep kw) = Inl x)
   \<and> (httpx_request e w (mk_request s m ep kw) = Inr resp \<and> status_code resp \<noteq> 401
        \<and> \<not> (200 \<le> status_code resp \<and> status_code resp \<le> 299) \<longrightarrow>
      fst (make_request e w s m ep kw) = Inl (HTTPStatusError (status_code resp)))
   \<and> (httpx_request e w (mk_request s m ep kw) = Inr resp \<and> status_code resp = 401
        \<and> fst (refresh_access_token e
                  (w\<lparr>api_calls := api_calls w @ [mk_request s m ep kw]\<rparr>) s) = Inr False \<longrightarrow>
      fst (make_request e w s m ep kw) = Inl (HTTPStatusError 401))
   \<and> (httpx_request e w (mk_request s m ep kw) = Inr resp
        \<and> 200 \<le> status_code resp \<and> status_code resp \<le> 299 \<and> json_body resp = None \<longrightarrow>
      fst (make_request e w s m ep kw) = Inl JSONDecodeError)"
  by (auto simp: make_request_def Let_def checked_json_def httpx_raise_for_status_def
        response_json_def
      split: sum.splits prod.splits bool.splits)

text \<open>The example provider's refresh, run after a first request was sent.\<close>

lemma demo_refresh:
  "refresh_access_token demo_env
      (demo_world\<lparr>api_calls := [mk_request demo_api m ep kw]\<rparr>) demo_api
   = (Inr True,
      demo_world\<lparr>api_calls := [mk_request demo_api m ep kw],
                  posts := [refresh_post demo_api],
                  db_sessions := 1,
                  tokens := [\<lparr>row_id = 1, row_access_token = PStr ''A2'',
                              row_refresh_token = PStr ''R2'', updated_at = 10\<rparr>]\<rparr>,
      demo_api\<lparr>access_token := PStr ''A2'', refresh_token := PStr ''R2'',
                headers := [(''Authorization'', ''Bearer A2''),
                            (''Content-Type'', ''application/json''),
                            (''Version'', ''2021-04-15'')]\<rparr>)"
  by (simp add: refresh_access_token_def update_tokens_def sql_update_def update_headers_def
        requests_raise_for_status_def response_json_def demo_defs)

subsection \<open>The token store: \<open>get_tokens\<close> and \<open>update_tokens\<close>\<close>

text \<open>
  C6. \<open>get_tokens\<close> (the spec's \<open>load_current\<close>) on a reachable, empty table raises
  the ValueError "No tokens found in database" (the spec's NotFoundError); when the
  driver raises OperationalError because the database cannot be reached, it raises the
  ValueError "Failed to connect to database: ..." (the spec's StoreUnavailableError);
  on a reachable table with rows it returns the access/refresh pair of a row whose
  \<open>updated_at\<close> no other row exceeds. The table itself is never changed by a read.
\<close>

theorem get_tokens_cases:
  "(db_fault e w = None \<and> tokens w = [] \<longrightarrow>
      fst (get_tokens e w) = Inl (ValueError ''No tokens found in database''))
   \<and> (db_fault e w = Some (OperationalError m) \<longrightarrow>
      fst (get_tokens e w) = Inl (ValueError (''Failed to connect to database: '' @ m)))
   \<and> (db_fault e w = None \<and> tokens w \<noteq> [] \<longrightarrow>
      (\<exists>x\<in>set (tokens w).
          fst (get_tokens e w) = Inr (row_access_token x, row_refresh_token x)
          \<and> (\<forall>y\<in>set (tokens w). updated_at y \<le> updated_at x)))
   \<and> tokens (snd (get_tokens e w)) = tokens w"
proof -
  have a: "db_fault e w = None \<and> tokens w = [] \<longrightarrow>
      fst (get_tokens e w) = Inl (ValueError ''No tokens found in database'')"
    by (simp add: get_tokens_def)
  have b: "db_fault e w = Some (OperationalError m) \<longrightarrow>
      fst (get_tokens e w) = Inl (ValueError (''Failed to connect to database: '' @ m))"
    by (simp add: get_tokens_def)
  have c: "\<exists>x\<in>set (tokens w).
          fst (get_tokens e w) = Inr (row_access_token x, row_refresh_token x)
          \<and> (\<forall>y\<in>set (tokens w). updated_at y \<le> updated_at x)"
    if ok: "db_fault e w = None" and ne: "tokens w \<noteq> []"
  proof -
    from ne obtain x where x: "select_latest (tokens w) = Some x"
      using select_latest_None [of "tokens w"] by (cases "select_latest (tokens w)") auto
    from select_latest_max [OF x] ok x show ?thesis
      by (auto simp: get_tokens_def)
  qed
  have d: "tokens (snd (get_tokens e w)) = tokens w"
    by (simp add: get_tokens_def Let_def split: option.splits error.splits)
  from a b c d show ?thesis by blast
qed

text \<open>
  The three cases at work: an empty table, a database that times out, and a table of
  two rows of which the one written at time 7 is the later.
\<close>

theorem get_tokens_cases_witness:
  "fst (get_tokens demo_env (demo_world\<lparr>tokens := []\<rparr>))
     = Inl (ValueError ''No tokens found in database'')
   \<and> fst (get_tokens (demo_env\<lparr>db_fault := \<lambda>w. Some (OperationalError ''timeout'')\<rparr>) demo_world)
     = Inl (ValueError ''Failed to connect to database: timeout'')
   \<and> fst (get_tokens demo_env
        (demo_world\<lparr>tokens :=
           [\<lparr>row_id = 1, row_access_token = PStr ''A1'', row_refresh_token = PStr ''R1'',
             updated_at = 5\<rparr>,
            \<lparr>row_id = 2, row_access_token = PStr ''B1'', row_refresh_token = PStr ''S1'',
             updated_at = 7\<rparr>]\<rparr>))
     = Inr (PStr ''B1'', PStr ''S1'')"
proof -
  have a: "fst (get_tokens demo_env (demo_world\<lparr>tokens := []\<rparr>))
     = Inl (ValueError ''No tokens found in database'')"
    using get_tokens_cases [of demo_env "demo_world\<lparr>tokens := []\<rparr>"]
    by (simp add: demo_defs)
  have b: "fst (get_tokens (demo_env\<lparr>db_fault := \<lambda>w. Some (OperationalError ''timeout'')\<rparr>) demo_world)
     = Inl (ValueError ''Failed to connect to database: timeout'')"
    using get_tokens_cases [of "demo_env\<lparr>db_fault := \<lambda>w. Some (OperationalError ''timeout'')\<rparr>"
        demo_world "''timeout''"]
    by (simp add: demo_defs)
  have c: "fst (get_tokens demo_env
        (demo_world\<lparr>tokens :=
           [\<lparr>row_id = 1, row_access_token = PStr ''A1'', row_refresh_token = PStr ''R1'',
             updated_at = 5\<rparr>,
            \<lparr>row_id = 2, row_access_token = PStr ''B1'', row_refresh_token = PStr ''S1'',
             updated_at = 7\<rparr>]\<rparr>))
     = Inr (PStr ''B1'', PStr ''S1'')"
    using get_tokens_cases [of demo_env
        "demo_world\<lparr>tokens :=
           [\<lparr>row_id = 1, row_access_token = PStr ''A1'', row_refresh_token = PStr ''R1'',
             updated_at = 5\<rparr>,
            \<lparr>row_id = 2, row_access_token = PStr ''B1'', row_refresh_token = PStr ''S1'',
             updated_at = 7\<rparr>]\<rparr>"]
    by (auto simp: demo_defs)
  from a b c show ?thesis by simp
qed

text \<open>
  C3, as the code has it. \<open>update_tokens\<close> (the spec's \<open>save\<close>) is an UPDATE of the
  rows of id 1, not an upsert. When the table has a row of id 1 and every other row was
  written before the time of the call, then after a successful \<open>update_tokens\<close> a
  \<open>get_tokens\<close> that reaches the database returns exactly the pair just written.
\<close>

theorem update_tokens_then_get_tokens:
  assumes saved: "update_tokens e w s a r = (Inr (), w', s')"
    and has1: "\<exists>x\<in>set (tokens w). row_id x = 1"
    and older: "\<forall>x\<in>set (tokens w). row_id x \<noteq> 1 \<longrightarrow> updated_at x < now w"
    and reach: "db_fault e w' = None"
  shows "fst (get_tokens e w') = Inr (a, r)"
proof -
  from update_tokens_Inr [OF saved]
  have tw: "tokens w' = sql_update a r (now w) (tokens w)" by simp
  from select_latest_sql_update [OF has1 older, of a r] tw reach
  show ?thesis by (auto simp: get_tokens_def)
qed

text \<open>
  A table whose later row is the one of id 2, written at time 7: the pair A2/R2 saved
  at time 10 into the row of id 1 is the pair read back.
\<close>

theorem update_tokens_then_get_tokens_witness:
  "fst (update_tokens demo_env
          (demo_world\<lparr>tokens :=
             [\<lparr>row_id = 1, row_access_token = PStr ''A1'', row_refresh_token = PStr ''R1'',
               updated_at = 5\<rparr>,
              \<lparr>row_id = 2, row_access_token = PStr ''B1'', row_refresh_token = PStr ''S1'',
               updated_at = 7\<rparr>]\<rparr>)
          demo_api (PStr ''A2'') (PStr ''R2'')) = Inr ()
   \<and> fst (get_tokens demo_env
          (demo_world\<lparr>db_sessions := 1, tokens :=
             [\<lparr>row_id = 1, row_access_token = PStr ''A2'', row_refresh_token = PStr ''R2'',
               updated_at = 10\<rparr>,
              \<lparr>row_id = 2, row_access_token = PStr ''B1'', row_refresh_token = PStr ''S1'',
               updated_at = 7\<rparr>]\<rparr>))
     = Inr (PStr ''A2'', PStr ''R2'')"
proof -
  let ?w = "demo_world\<lparr>tokens :=
             [\<lparr>row_id = 1, row_access_token = PStr ''A1'', row_refresh_token = PStr ''R1'',
               updated_at = 5\<rparr>,
              \<lparr>row_id = 2, row_access_token = PStr ''B1'', row_refresh_token = PStr ''S1'',
               updated_at = 7\<rparr>]\<rparr>"
  let ?w' = "demo_world\<lparr>db_sessions := 1, tokens :=
             [\<lparr>row_id = 1, row_access_token = PStr ''A2'', row_refresh_token = PStr ''R2'',
               updated_at = 10\<rparr>,
              \<lparr>row_id = 2, row_access_token = PStr ''B1'', row_refresh_token = PStr ''S1'',
               updated_at = 7\<rparr>]\<rparr>"
  have saved: "update_tokens demo_env ?w demo_api (PStr ''A2'') (PStr ''R2'')
     = (Inr (), ?w',
        update_headers demo_env
          (demo_api\<lparr>access_token := PStr ''A2'', refresh_token := PStr ''R2''\<rparr>))"
    by (simp add: update_tokens_def sql_update_def demo_defs)
  have has1: "\<exists>x\<in>set (tokens ?w). row_id x = 1"
    by simp
  have older: "\<forall>x\<in>set (tokens ?w). row_id x \<noteq> 1 \<longrightarrow> updated_at x < now ?w"
    by (simp add: demo_world_def)
  have reach: "db_fault demo_env ?w' = None"
    by (simp add: demo_env_def)
  from update_tokens_then_get_tokens [OF saved has1 older reach] saved
  show ?thesis by simp
qed

text \<open>
  C3 as the spec states it fails on a table without a row of id 1. With the single row
  of id 2 holding A1/R1, saving A2/R2 succeeds and the next read still returns A1/R1,
  the earlier pair; on an empty table the save succeeds and the next read finds nothing.
\<close>

theorem save_then_load_counterexample:
  "fst (update_tokens demo_env
          (demo_world\<lparr>tokens := [\<lparr>row_id = 2, row_access_token = PStr ''A1'',
                                   row_refresh_token = PStr ''R1'', updated_at = 5\<rparr>]\<rparr>)
          demo_api (PStr ''A2'') (PStr ''R2'')) = Inr ()
   \<and> fst (get_tokens demo_env
          (fst (snd (update_tokens demo_env
             (demo_world\<lparr>tokens := [\<lparr>row_id = 2, row_access_token = PStr ''A1'',
                                      row_refresh_token = PStr ''R1'', updated_at = 5\<rparr>]\<rparr>)
             demo_api (PStr ''A2'') (PStr ''R2'')))))
       = Inr (PStr ''A1'', PStr ''R1'')
   \<and> fst (update_tokens demo_env (demo_world\<lparr>tokens := []\<rparr>)
          demo_api (PStr ''A2'') (PStr ''R2'')) = Inr ()
   \<and> fst (get_tokens demo_env
          (fst (snd (update_tokens demo_env (demo_world\<lparr>tokens := []\<rparr>)
             demo_api (PStr ''A2'') (PStr ''R2'')))))
       = Inl (ValueError ''No tokens found in database'')"
  by (simp add: update_tokens_def get_tokens_def sql_update_def demo_defs)

text \<open>
  C10. When \<open>update_tokens\<close> raises, the instance is exactly what it was before the
  call, access token, refresh token and headers: the fields are assigned only after the
  commit.
\<close>

theorem update_tokens_failure_keeps_cache:
  assumes "update_tokens e w s a r = (Inl x, w', s')"
  shows "s' = s \<and> access_token s' = access_token s \<and> refresh_token s' = refresh_token s
         \<and> headers s' = headers s"
  using update_tokens_Inl [OF assms] by simp

text \<open>The database times out while the instance holds A1/R1: the call raises, A1 stays.\<close>

theorem update_tokens_failure_keeps_cache_witness:
  "update_tokens (demo_env\<lparr>db_fault := \<lambda>w. Some (OperationalError ''timeout'')\<rparr>)
       demo_world demo_api (PStr ''A2'') (PStr ''R2'')
     = (Inl (ValueError ''Failed to connect to database: timeout''),
        demo_world\<lparr>db_sessions := 1\<rparr>, demo_api)
   \<and> access_token demo_api = PStr ''A1''"
proof -
  have h: "update_tokens (demo_env\<lparr>db_fault := \<lambda>w. Some (OperationalError ''timeout'')\<rparr>)
       demo_world demo_api (PStr ''A2'') (PStr ''R2'')
     = (Inl (ValueError ''Failed to connect to database: timeout''),
        demo_world\<lparr>db_sessions := 1\<rparr>, demo_api)"
    by (simp add: update_tokens_def demo_defs)
  from update_tokens_failure_keeps_cache [OF h] h show ?thesis
    by (simp add: demo_api_def)
qed

subsection \<open>The token refresher: \<open>refresh_access_token\<close>\<close>

text \<open>
  C4, as the code has it. When the call of the token endpoint raises in transport, or
  answers with a status from 400 to 599 (the statuses for which
  \<^verbatim>\<open>raise_for_status\<close> of requests raises), or with a body that is not JSON, or with
  JSON from which \<open>access_token\<close> or \<open>refresh_token\<close> cannot be read, then
  \<open>refresh_access_token\<close> returns False: it raises nothing and hands no cause to its
  caller. The world afterwards differs from the one before in the recorded POST only,
  so no database session was opened and the table is unchanged, and the instance is
  unchanged.
\<close>

theorem refresh_failure_returns_False:
  assumes "case requests_post e w (refresh_post s) of
             Inl x \<Rightarrow> True
           | Inr resp \<Rightarrow>
               (400 \<le> status_code resp \<and> status_code resp < 600)
               \<or> (case json_body resp of
                     None \<Rightarrow> True
                   | Some toks \<Rightarrow>
                       isl (subscript toks ''access_token'')
                       \<or> isl (subscript toks ''refresh_token''))"
  shows "refresh_access_token e w s = (Inr False, w\<lparr>posts := posts w @ [refresh_post s]\<rparr>, s)"
  using assms
  by (auto simp: refresh_access_token_def Let_def requests_raise_for_status_def
        response_json_def isl_def
      split: sum.splits option.splits)

text \<open>The provider rejects the refresh token: status 400 with \<open>invalid_grant\<close>.\<close>

theorem refresh_failure_returns_False_witness:
  "refresh_access_token
      (demo_env\<lparr>requests_post :=
         token_response 400 (Some (PDict [(''error'', PStr ''invalid_grant'')]))\<rparr>)
      demo_world demo_api
   = (Inr False, demo_world\<lparr>posts := [refresh_post demo_api]\<rparr>, demo_api)"
proof -
  have h: "case requests_post
              (demo_env\<lparr>requests_post :=
                 token_response 400 (Some (PDict [(''error'', PStr ''invalid_grant'')]))\<rparr>)
              demo_world (refresh_post demo_api) of
             Inl x \<Rightarrow> True
           | Inr resp \<Rightarrow>
               (400 \<le> status_code resp \<and> status_code resp < 600)
               \<or> (case json_body resp of
                     None \<Rightarrow> True
                   | Some toks \<Rightarrow>
                       isl (subscript toks ''access_token'')
                       \<or> isl (subscript toks ''refresh_token''))"
    by (simp add: token_response_def)
  have p: "posts demo_world = []" by (simp add: demo_world_def)
  from refresh_failure_returns_False [OF h] p show ?thesis by simp
qed

text \<open>
  C4 as the spec states it fails twice. On the status 400 above the refresher returns
  the value False rather than raising an error that carries the cause. And a status
  outside 200 to 299 that is no client or server error, here 300, with a complete body
  is taken as a success: the refresher returns True and the table is rewritten.
\<close>

theorem refresh_error_counterexample:
  "fst (refresh_access_token
      (demo_env\<lparr>requests_post :=
         token_response 400 (Some (PDict [(''error'', PStr ''invalid_grant'')]))\<rparr>)
      demo_world demo_api) = Inr False
   \<and> fst (refresh_access_token
      (demo_env\<lparr>requests_post :=
         token_response 300 (Some (PDict [(''access_token'', PStr ''A2''),
                                           (''refresh_token'', PStr ''R2'')]))\<rparr>)
      demo_world demo_api) = Inr True
   \<and> tokens (fst (snd (refresh_access_token
      (demo_env\<lparr>requests_post :=
         token_response 300 (Some (PDict [(''access_token'', PStr ''A2''),
                                           (''refresh_token'', PStr ''R2'')]))\<rparr>)
      demo_world demo_api)))
     = [\<lparr>row_id = 1, row_access_token = PStr ''A2'', row_refresh_token = PStr ''R2'',
          updated_at = 10\<rparr>]
   \<and> tokens demo_world
     = [\<lparr>row_id = 1, row_access_token = PStr ''A1'', row_refresh_token = PStr ''R1'',
          updated_at = 5\<rparr>]"
  by (simp add: refresh_access_token_def update_tokens_def sql_update_def
        requests_raise_for_status_def response_json_def demo_defs)

text \<open>
  C5, as the code has it. The refresher persists through the UPDATE of the rows of
  id 1. When the table has a row of id 1 and every other row was written before the
  time of the refresh, then after a refresh that returned True the pair the instance
  holds is the pair the token endpoint issued and is the pair a \<open>get_tokens\<close> that
  reaches the database reads back; the table is the old one with exactly this pair
  written; the headers are the three headers built from the new access token, and
  building them again, as \<open>_make_request\<close> does, changes nothing; so every request
  built from the instance from now on carries the bearer header of the new access token.
\<close>

theorem refresh_success_resynchronises:
  assumes refreshed: "refresh_access_token e w s = (Inr True, w', s')"
    and has1: "\<exists>x\<in>set (tokens w). row_id x = 1"
    and older: "\<forall>x\<in>set (tokens w). row_id x \<noteq> 1 \<longrightarrow> updated_at x < now w"
    and reach: "db_fault e w' = None"
  shows "fst (get_tokens e w') = Inr (access_token s', refresh_token s')
       \<and> tokens w' = sql_update (access_token s') (refresh_token s') (now w) (tokens w)
       \<and> (\<exists>resp toks. requests_post e w (refresh_post s) = Inr resp
             \<and> json_body resp = Some toks
             \<and> subscript toks ''access_token'' = Inr (access_token s')
             \<and> subscript toks ''refresh_token'' = Inr (refresh_token s'))
       \<and> headers s' =
            [(''Authorization'', ''Bearer '' @ str_of e (access_token s')),
             (''Content-Type'', ''application/json''),
             (''Version'', ''2021-04-15'')]
       \<and> update_headers e s' = s'
       \<and> (\<forall>m ep kw. map_of (req_headers (mk_request s' m ep kw)) ''Authorization''
             = Some (''Bearer '' @ str_of e (access_token s')))"
proof -
  from refresh_True_D [OF refreshed] obtain resp toks a r where
    post: "requests_post e w (refresh_post s) = Inr resp"
    and js: "response_json resp = Inr toks"
    and sa: "subscript toks ''access_token'' = Inr a"
    and sr: "subscript toks ''refresh_token'' = Inr r"
    and up: "update_tokens e (w\<lparr>posts := posts w @ [refresh_post s]\<rparr>) s a r = (Inr (), w', s')"
    by blast
  from update_tokens_Inr [OF up]
  have s': "s' = update_headers e (s\<lparr>access_token := a, refresh_token := r\<rparr>)"
    and tw: "tokens w' = sql_update a r (now w) (tokens w)"
    by simp_all
  from s' have acc: "access_token s' = a" and ref: "refresh_token s' = r"
    by (simp_all add: update_headers_def)
  from s' have hd: "headers s' =
            [(''Authorization'', ''Bearer '' @ str_of e (access_token s')),
             (''Content-Type'', ''application/json''),
             (''Version'', ''2021-04-15'')]"
    by (simp add: update_headers_def)
  from hd have idem: "update_headers e s' = s'"
    by (simp add: update_headers_def)
  from js have jb: "json_body resp = Some toks"
    by (simp add: response_json_def split: option.splits)
  from select_latest_sql_update [OF has1 older, of a r] tw reach
  have load: "fst (get_tokens e w') = Inr (access_token s', refresh_token s')"
    by (auto simp: get_tokens_def acc ref)
  have rq: "\<forall>m ep kw. map_of (req_headers (mk_request s' m ep kw)) ''Authorization''
             = Some (''Bearer '' @ str_of e (access_token s'))"
    by (simp add: mk_request_def hd)
  from load tw acc ref hd post jb sa sr idem rq show ?thesis by blast
qed

text \<open>
  The example provider issues A2/R2 to the instance that held A1/R1, over the table
  with the row of id 1: the refresh returns True, the instance holds A2/R2, the table
  reads back A2/R2, and the next request carries A2.
\<close>

theorem refresh_success_resynchronises_witness:
  "fst (refresh_access_token demo_env demo_world demo_api) = Inr True
   \<and> access_token (snd (snd (refresh_access_token demo_env demo_world demo_api))) = PStr ''A2''
   \<and> refresh_token (snd (snd (refresh_access_token demo_env demo_world demo_api))) = PStr ''R2''
   \<and> fst (get_tokens demo_env (fst (snd (refresh_access_token demo_env demo_world demo_api))))
       = Inr (PStr ''A2'', PStr ''R2'')
   \<and> map_of (req_headers (mk_request
         (snd (snd (refresh_access_token demo_env demo_world demo_api)))
         ''GET'' ''contacts/42'' [])) ''Authorization'' = Some ''Bearer A2''"
proof -
  let ?w' = "demo_world\<lparr>posts := [refresh_post demo_api], db_sessions := 1,
                  tokens := [\<lparr>row_id = 1, row_access_token = PStr ''A2'',
                              row_refresh_token = PStr ''R2'', updated_at = 10\<rparr>]\<rparr>"
  let ?s' = "demo_api\<lparr>access_token := PStr ''A2'', refresh_token := PStr ''R2'',
                headers := [(''Authorization'', ''Bearer A2''),
                            (''Content-Type'', ''application/json''),
                            (''Version'', ''2021-04-15'')]\<rparr>"
  have refreshed: "refresh_access_token demo_env demo_world demo_api = (Inr True, ?w', ?s')"
    by (simp add: refresh_access_token_def update_tokens_def sql_update_def update_headers_def
          requests_raise_for_status_def response_json_def demo_defs)
  have has1: "\<exists>x\<in>set (tokens demo_world). row_id x = 1"
    by (simp add: demo_world_def)
  have older: "\<forall>x\<in>set (tokens demo_world). row_id x \<noteq> 1 \<longrightarrow> updated_at x < now demo_world"
    by (simp add: demo_world_def)
  have reach: "db_fault demo_env ?w' = None"
    by (simp add: demo_env_def)
  have str: "str_of demo_env (PStr ''A2'') = ''A2''"
    by (simp add: demo_env_def demo_str_def)
  from refresh_success_resynchronises [OF refreshed has1 older reach]
  have load: "fst (get_tokens demo_env ?w') = Inr (access_token ?s', refresh_token ?s')"
    and auth: "map_of (req_headers (mk_request ?s' ''GET'' ''contacts/42'' [])) ''Authorization''
                 = Some (''Bearer '' @ str_of demo_env (access_token ?s'))"
    by blast+
  from load auth str show ?thesis
    by (simp add: refreshed)
qed

text \<open>
  C5 as the spec states it fails on a table without a row of id 1. With the single row
  of id 2 holding A1/R1 the refresh returns True and the instance holds A2/R2, but the
  table is what it was and still reads back A1/R1: the pair in memory is not the pair
  in the store.
\<close>

theorem refresh_resync_counterexample:
  "fst (refresh_access_token demo_env
          (demo_world\<lparr>tokens := [\<lparr>row_id = 2, row_access_token = PStr ''A1'',
                                   row_refresh_token = PStr ''R1'', updated_at = 5\<rparr>]\<rparr>)
          demo_api) = Inr True
   \<and> access_token (snd (snd (refresh_access_token demo_env
          (demo_world\<lparr>tokens := [\<lparr>row_id = 2, row_access_token = PStr ''A1'',
                                   row_refresh_token = PStr ''R1'', updated_at = 5\<rparr>]\<rparr>)
          demo_api))) = PStr ''A2''
   \<and> refresh_token (snd (snd (refresh_access_token demo_env
          (demo_world\<lparr>tokens := [\<lparr>row_id = 2, row_access_token = PStr ''A1'',
                                   row_refresh_token = PStr ''R1'', updated_at = 5\<rparr>]\<rparr>)
          demo_api))) = PStr ''R2''
   \<and> tokens (fst (snd (refresh_access_token demo_env
          (demo_world\<lparr>tokens := [\<lparr>row_id = 2, row_access_token = PStr ''A1'',
                                   row_refresh_token = PStr ''R1'', updated_at = 5\<rparr>]\<rparr>)
          demo_api)))
       = [\<lparr>row_id = 2, row_access_token = PStr ''A1'', row_refresh_token = PStr ''R1'',
            updated_at = 5\<rparr>]
   \<and> fst (get_tokens demo_env (fst (snd (refresh_access_token demo_env
          (demo_world\<lparr>tokens := [\<lparr>row_id = 2, row_access_token = PStr ''A1'',
                                   row_refresh_token = PStr ''R1'', updated_at = 5\<rparr>]\<rparr>)
          demo_api))))
       = Inr (PStr ''A1'', PStr ''R1'')"
  by (simp add: refresh_access_token_def update_tokens_def get_tokens_def sql_update_def
        update_headers_def requests_raise_for_status_def response_json_def demo_defs)

subsection \<open>The request executor: \<open>_make_request\<close>\<close>

text \<open>
  C1. When the first response has status 401 and the refresh that follows returns True,
  then the instance after the call is the refreshed one, holding the pair the token
  endpoint issued and headers built from the new access token; the call sent exactly
  two requests, the original one and the same one again with the refreshed instance's
  headers; it posted to the token endpoint exactly once; and when the second response
  has a status from 200 to 299, the call's result is \<^verbatim>\<open>.json()\<close> of that response.
\<close>

theorem make_request_refresh_and_retry:
  assumes first: "httpx_request e w (mk_request s m ep kw) = Inr resp"
    and unauth: "status_code resp = 401"
    and refreshed:
      "refresh_access_token e (w\<lparr>api_calls := api_calls w @ [mk_request s m ep kw]\<rparr>) s
         = (Inr True, w2, s2)"
  shows "snd (snd (make_request e w s m ep kw)) = s2
       \<and> (\<exists>presp toks.
             requests_post e (w\<lparr>api_calls := api_calls w @ [mk_request s m ep kw]\<rparr>)
               (refresh_post s) = Inr presp
             \<and> json_body presp = Some toks
             \<and> subscript toks ''access_token'' = Inr (access_token s2)
             \<and> subscript toks ''refresh_token'' = Inr (refresh_token s2))
       \<and> headers s2 =
            [(''Authorization'', ''Bearer '' @ str_of e (access_token s2)),
             (''Content-Type'', ''application/json''),
             (''Version'', ''2021-04-15'')]
       \<and> api_calls (fst (snd (make_request e w s m ep kw)))
            = api_calls w @ [mk_request s m ep kw, mk_request s2 m ep kw]
       \<and> posts (fst (snd (make_request e w s m ep kw))) = posts w @ [refresh_post s]
       \<and> (\<forall>resp2. httpx_request e w2 (mk_request s2 m ep kw) = Inr resp2
             \<and> 200 \<le> status_code resp2 \<and> status_code resp2 \<le> 299 \<longrightarrow>
             fst (make_request e w s m ep kw) = response_json resp2)"
proof -
  let ?w1 = "w\<lparr>api_calls := api_calls w @ [mk_request s m ep kw]\<rparr>"
  from refresh_True_D [OF refreshed] obtain presp toks a r where
    post: "requests_post e ?w1 (refresh_post s) = Inr presp"
    and js: "response_json presp = Inr toks"
    and sa: "subscript toks ''access_token'' = Inr a"
    and sr: "subscript toks ''refresh_token'' = Inr r"
    and up: "update_tokens e (?w1\<lparr>posts := posts ?w1 @ [refresh_post s]\<rparr>) s a r
               = (Inr (), w2, s2)"
    by blast
  from update_tokens_Inr [OF up]
  have s2: "s2 = update_headers e (s\<lparr>access_token := a, refresh_token := r\<rparr>)"
    and w2: "w2 = ?w1\<lparr>posts := posts ?w1 @ [refresh_post s],
                      db_sessions := db_sessions w + 1,
                      tokens := sql_update a r (now w) (tokens w)\<rparr>"
    by simp_all
  from s2 have acc: "access_token s2 = a" and ref: "refresh_token s2 = r"
    and hd: "headers s2 =
            [(''Authorization'', ''Bearer '' @ str_of e (access_token s2)),
             (''Content-Type'', ''application/json''),
             (''Version'', ''2021-04-15'')]"
    by (simp_all add: update_headers_def)
  from hd have idem: "update_headers e s2 = s2"
    by (simp add: update_headers_def)
  from w2 have ac2: "api_calls w2 = api_calls w @ [mk_request s m ep kw]"
    and po2: "posts w2 = posts w @ [refresh_post s]"
    by simp_all
  from js have jb: "json_body presp = Some toks"
    by (simp add: response_json_def split: option.splits)
  have mr: "make_request e w s m ep kw =
     (case httpx_request e w2 (mk_request s2 m ep kw) of
        Inl x \<Rightarrow> (Inl x, w2\<lparr>api_calls := api_calls w2 @ [mk_request s2 m ep kw]\<rparr>, s2)
      | Inr resp2 \<Rightarrow>
          (checked_json resp2, w2\<lparr>api_calls := api_calls w2 @ [mk_request s2 m ep kw]\<rparr>, s2))"
    by (simp add: make_request_def Let_def first unauth refreshed idem split: sum.splits)
  have st: "snd (snd (make_request e w s m ep kw)) = s2"
    by (simp add: mr split: sum.splits)
  have calls: "api_calls (fst (snd (make_request e w s m ep kw)))
            = api_calls w @ [mk_request s m ep kw, mk_request s2 m ep kw]"
    by (simp add: mr ac2 split: sum.splits)
  have ps: "posts (fst (snd (make_request e w s m ep kw))) = posts w @ [refresh_post s]"
    by (simp add: mr po2 split: sum.splits)
  have res: "\<forall>resp2. httpx_request e w2 (mk_request s2 m ep kw) = Inr resp2
             \<and> 200 \<le> status_code resp2 \<and> status_code resp2 \<le> 299 \<longrightarrow>
             fst (make_request e w s m ep kw) = response_json resp2"
    by (simp add: mr checked_json_def httpx_raise_for_status_def)
  from st post jb sa sr acc ref hd calls ps res show ?thesis by blast
qed

text \<open>
  The example provider rejects A1 and accepts A2: the call returns the contact, the
  two requests carry A1 and then A2, and one refresh was posted.
\<close>

theorem make_request_refresh_and_retry_witness:
  "fst (make_request demo_env demo_world demo_api ''GET'' ''contacts/42'' [])
     = Inr (PDict [(''pipeline'', PDict [(''name'', PStr ''Sales'')])])
   \<and> access_token (snd (snd (make_request demo_env demo_world demo_api ''GET'' ''contacts/42'' [])))
     = PStr ''A2''
   \<and> map (\<lambda>rq. map_of (req_headers rq) ''Authorization'')
        (api_calls (fst (snd (make_request demo_env demo_world demo_api
                                ''GET'' ''contacts/42'' []))))
     = [Some ''Bearer A1'', Some ''Bearer A2'']
   \<and> posts (fst (snd (make_request demo_env demo_world demo_api ''GET'' ''contacts/42'' [])))
     = [refresh_post demo_api]"
proof -
  let ?s2 = "demo_api\<lparr>access_token := PStr ''A2'', refresh_token := PStr ''R2'',
                headers := [(''Authorization'', ''Bearer A2''),
                            (''Content-Type'', ''application/json''),
                            (''Version'', ''2021-04-15'')]\<rparr>"
  let ?r1 = "\<lparr>status_code = 401,
             json_body = Some (PDict [(''message'', PStr ''Invalid JWT'')])\<rparr>"
  let ?r2 = "\<lparr>status_code = 200,
             json_body = Some (PDict [(''pipeline'', PDict [(''name'', PStr ''Sales'')])])\<rparr>"
  have first: "httpx_request demo_env demo_world
                 (mk_request demo_api ''GET'' ''contacts/42'' []) = Inr ?r1"
    by (simp add: demo_env_def demo_api_def mk_request_def)
  have unauth: "status_code ?r1 = 401" by simp
  have refreshed: "refresh_access_token demo_env
      (demo_world\<lparr>api_calls := api_calls demo_world @ [mk_request demo_api ''GET'' ''contacts/42'' []]\<rparr>)
      demo_api
   = (Inr True,
      demo_world\<lparr>api_calls := [mk_request demo_api ''GET'' ''contacts/42'' []],
                  posts := [refresh_post demo_api],
                  db_sessions := 1,
                  tokens := [\<lparr>row_id = 1, row_access_token = PStr ''A2'',
                              row_refresh_token = PStr ''R2'', updated_at = 10\<rparr>]\<rparr>,
      ?s2)"
    using demo_refresh [of "''GET''" "''contacts/42''" "[]"]
    by (simp add: demo_world_def)
  have second: "httpx_request demo_env
      (demo_world\<lparr>api_calls := [mk_request demo_api ''GET'' ''contacts/42'' []],
                  posts := [refresh_post demo_api],
                  db_sessions := 1,
                  tokens := [\<lparr>row_id = 1, row_access_token = PStr ''A2'',
                              row_refresh_token = PStr ''R2'', updated_at = 10\<rparr>]\<rparr>)
      (mk_request ?s2 ''GET'' ''contacts/42'' []) = Inr ?r2"
    by (simp add: demo_env_def mk_request_def)
  have empty: "api_calls demo_world = []" "posts demo_world = []"
    by (simp_all add: demo_world_def)
  from make_request_refresh_and_retry [OF first unauth refreshed] second empty
  show ?thesis
    by (simp add: response_json_def mk_request_def demo_api_def)
qed

text \<open>
  C2. Whatever the surroundings do, one call sends at most two requests and posts to
  the token endpoint at most once. Against a provider that answers every request with
  status 401 the call raises the status error of a 401 after exactly one POST to the
  token endpoint; it has sent two requests, the original and one retry, when the refresh
  returned True, and the original alone when the refresh returned False.
\<close>

theorem make_request_single_retry:
  "(\<exists>extra. api_calls (fst (snd (make_request e w s m ep kw))) = api_calls w @ extra
             \<and> length extra \<le> 2)
   \<and> (\<exists>extra. posts (fst (snd (make_request e w s m ep kw))) = posts w @ extra
             \<and> length extra \<le> 1)
   \<and> ((\<forall>w' rq. \<exists>resp. httpx_request e w' rq = Inr resp \<and> status_code resp = 401) \<longrightarrow>
        fst (make_request e w s m ep kw) = Inl (HTTPStatusError 401)
        \<and> posts (fst (snd (make_request e w s m ep kw))) = posts w @ [refresh_post s]
        \<and> (fst (refresh_access_token e
                   (w\<lparr>api_calls := api_calls w @ [mk_request s m ep kw]\<rparr>) s) = Inr True \<longrightarrow>
             api_calls (fst (snd (make_request e w s m ep kw)))
               = api_calls w @
                 [mk_request s m ep kw,
                  mk_request (snd (snd (refresh_access_token e
                     (w\<lparr>api_calls := api_calls w @ [mk_request s m ep kw]\<rparr>) s))) m ep kw])
        \<and> (fst (refresh_access_token e
                   (w\<lparr>api_calls := api_calls w @ [mk_request s m ep kw]\<rparr>) s) = Inr False \<longrightarrow>
             api_calls (fst (snd (make_request e w s m ep kw)))
               = api_calls w @ [mk_request s m ep kw]))"
proof -
  let ?rq = "mk_request s m ep kw"
  let ?w1 = "w\<lparr>api_calls := api_calls w @ [?rq]\<rparr>"
  obtain b w2 s2 where rf: "refresh_access_token e ?w1 s = (Inr b, w2, s2)"
    using refresh_never_raises [of e ?w1 s]
    by (cases "refresh_access_token e ?w1 s") auto
  from refresh_traffic [of e ?w1 s] rf
  have po2: "posts w2 = posts w @ [refresh_post s]"
    and ac2: "api_calls w2 = api_calls w @ [?rq]"
    by simp_all
  have idem: "update_headers e s2 = s2" if "b"
    using refresh_True_headers [of e ?w1 s w2 s2] rf that by simp
  have calls: "\<exists>extra. api_calls (fst (snd (make_request e w s m ep kw))) = api_calls w @ extra
             \<and> length extra \<le> 2"
    by (cases b)
      (auto simp: make_request_def Let_def rf ac2 split: sum.splits)
  have toks: "\<exists>extra. posts (fst (snd (make_request e w s m ep kw))) = posts w @ extra
             \<and> length extra \<le> 1"
    by (cases b)
      (auto simp: make_request_def Let_def rf po2 split: sum.splits)
  have storm: "fst (make_request e w s m ep kw) = Inl (HTTPStatusError 401)
        \<and> posts (fst (snd (make_request e w s m ep kw))) = posts w @ [refresh_post s]
        \<and> (b \<longrightarrow> api_calls (fst (snd (make_request e w s m ep kw)))
               = api_calls w @ [?rq, mk_request s2 m ep kw])
        \<and> (\<not> b \<longrightarrow> api_calls (fst (snd (make_request e w s m ep kw)))
               = api_calls w @ [?rq])"
    if always: "\<forall>w' rq. \<exists>resp. httpx_request e w' rq = Inr resp \<and> status_code resp = 401"
  proof -
    from always obtain r1 where r1: "httpx_request e w ?rq = Inr r1" "status_code r1 = 401"
      by blast
    from always obtain r2 where
      r2: "httpx_request e w2 (mk_request s2 m ep kw) = Inr r2" "status_code r2 = 401"
      by blast
    show ?thesis
    proof (cases b)
      case True
      with idem have "update_headers e s2 = s2" by simp
      with True r1 r2 rf po2 ac2 show ?thesis
        by (simp add: make_request_def Let_def checked_json_def httpx_raise_for_status_def)
    next
      case False
      with r1 rf po2 ac2 show ?thesis
        by (simp add: make_request_def Let_def checked_json_def httpx_raise_for_status_def)
    qed
  qed
  from calls toks storm rf show ?thesis by simp
qed

text \<open>A provider that always answers 401, with a token endpoint that works.\<close>

theorem make_request_single_retry_witness:
  "fst (make_request
         (demo_env\<lparr>httpx_request := (\<lambda>w rq. Inr \<lparr>status_code = 401, json_body = None\<rparr>)\<rparr>)
         demo_world demo_api ''GET'' ''contacts/42'' []) = Inl (HTTPStatusError 401)
   \<and> length (api_calls (fst (snd (make_request
         (demo_env\<lparr>httpx_request := (\<lambda>w rq. Inr \<lparr>status_code = 401, json_body = None\<rparr>)\<rparr>)
         demo_world demo_api ''GET'' ''contacts/42'' [])))) = 2
   \<and> length (posts (fst (snd (make_request
         (demo_env\<lparr>httpx_request := (\<lambda>w rq. Inr \<lparr>status_code = 401, json_body = None\<rparr>)\<rparr>)
         demo_world demo_api ''GET'' ''contacts/42'' [])))) = 1"
proof -
  let ?e = "demo_env\<lparr>httpx_request := (\<lambda>w rq. Inr \<lparr>status_code = 401, json_body = None\<rparr>)\<rparr>"
  have always: "\<forall>w' rq. \<exists>resp. httpx_request ?e w' rq = Inr resp \<and> status_code resp = 401"
    by simp
  have rf: "fst (refresh_access_token ?e
       (demo_world\<lparr>api_calls := api_calls demo_world @ [mk_request demo_api ''GET'' ''contacts/42'' []]\<rparr>)
       demo_api) = Inr True"
    by (simp add: refresh_access_token_def update_tokens_def
          requests_raise_for_status_def response_json_def demo_defs)
  have empty: "api_calls demo_world = []" "posts demo_world = []"
    by (simp_all add: demo_world_def)
  from make_request_single_retry [of ?e demo_world demo_api "''GET''" "''contacts/42''" "[]"]
    always rf empty
  show ?thesis by simp
qed

subsection \<open>The best-effort operations: \<open>get_contact_pipeline\<close> and \<open>send_sms\<close>\<close>

text \<open>
  C8. Neither operation ever raises. When \<open>_make_request\<close> raises inside them,
  \<open>get_contact_pipeline\<close> returns the empty string and \<open>send_sms\<close> returns False;
  \<open>get_contact_pipeline\<close> also returns the empty string when the decoded body is no
  dict. And \<open>_make_request\<close> does raise on each kind of failure: a transport error, a
  status that is neither 401 nor from 200 to 299, a 401 after which the refresh returned
  False, and a successful status with a body that is not JSON.
\<close>

theorem best_effort_wrappers:
  "(\<exists>v. fst (get_contact_pipeline e w s cid) = Inr v)
   \<and> (\<exists>b. fst (send_sms e w s cid msg) = Inr b)
   \<and> (fst (make_request e w s ''GET'' (''contacts/'' @ cid) []) = Inl x \<longrightarrow>
        fst (get_contact_pipeline e w s cid) = Inr (PStr []))
   \<and> (fst (make_request e w s ''GET'' (''contacts/'' @ cid) []) = Inr data
        \<and> \<not> isinstance_dict data \<longrightarrow>
        fst (get_contact_pipeline e w s cid) = Inr (PStr []))
   \<and> (fst (make_request e w s ''POST'' ''conversations/messages''
              [(''json'',
                PDict [(''contactId'', PStr cid), (''message'', PStr msg),
                       (''type'', PStr ''SMS''), (''direction'', PStr ''outbound'')])]) = Inl x \<longrightarrow>
        fst (send_sms e w s cid msg) = Inr False)
   \<and> (\<forall>m ep kw resp.
        (httpx_request e w (mk_request s m ep kw) = Inl x
         \<or> httpx_request e w (mk_request s m ep kw) = Inr resp
             \<and> status_code resp \<noteq> 401
             \<and> \<not> (200 \<le> status_code resp \<and> status_code resp \<le> 299)
         \<or> httpx_request e w (mk_request s m ep kw) = Inr resp
             \<and> status_code resp = 401
             \<and> fst (refresh_access_token e
                      (w\<lparr>api_calls := api_calls w @ [mk_request s m ep kw]\<rparr>) s) = Inr False
         \<or> httpx_request e w (mk_request s m ep kw) = Inr resp
             \<and> 200 \<le> status_code resp \<and> status_code resp \<le> 299 \<and> json_body resp = None)
        \<longrightarrow> (\<exists>x'. fst (make_request e w s m ep kw) = Inl x'))"
proof -
  have a: "\<exists>v. fst (get_contact_pipeline e w s cid) = Inr v"
    by (auto simp: get_contact_pipeline_def split: prod.splits sum.splits)
  have b: "\<exists>b. fst (send_sms e w s cid msg) = Inr b"
    by (auto simp: send_sms_def split: prod.splits sum.splits)
  have c: "fst (make_request e w s ''GET'' (''contacts/'' @ cid) []) = Inl x \<longrightarrow>
        fst (get_contact_pipeline e w s cid) = Inr (PStr [])"
    by (auto simp: get_contact_pipeline_def split: prod.splits sum.splits)
  have d: "fst (make_request e w s ''GET'' (''contacts/'' @ cid) []) = Inr data
        \<and> \<not> isinstance_dict data \<longrightarrow>
        fst (get_contact_pipeline e w s cid) = Inr (PStr [])"
    by (cases data) (auto simp: get_contact_pipeline_def split: prod.splits sum.splits)
  have f: "fst (make_request e w s ''POST'' ''conversations/messages''
              [(''json'',
                PDict [(''contactId'', PStr cid), (''message'', PStr msg),
                       (''type'', PStr ''SMS''), (''direction'', PStr ''outbound'')])]) = Inl x \<longrightarrow>
        fst (send_sms e w s cid msg) = Inr False"
    by (auto simp: send_sms_def split: prod.splits sum.splits)
  have g: "\<forall>m ep kw resp.
        (httpx_request e w (mk_request s m ep kw) = Inl x
         \<or> httpx_request e w (mk_request s m ep kw) = Inr resp
             \<and> status_code resp \<noteq> 401
             \<and> \<not> (200 \<le> status_code resp \<and> status_code resp \<le> 299)
         \<or> httpx_request e w (mk_request s m ep kw) = Inr resp
             \<and> status_code resp = 401
             \<and> fst (refresh_access_token e
                      (w\<lparr>api_calls := api_calls w @ [mk_request s m ep kw]\<rparr>) s) = Inr False
         \<or> httpx_request e w (mk_request s m ep kw) = Inr resp
             \<and> 200 \<le> status_code resp \<and> status_code resp \<le> 299 \<and> json_body resp = None)
        \<longrightarrow> (\<exists>x'. fst (make_request e w s m ep kw) = Inl x')"
    using make_request_failures [of e w s _ _ _ x] by blast
  from a b c d f g show ?thesis by blast
qed

text \<open>A transport that times out, and a provider that answers with a JSON list.\<close>

theorem best_effort_wrappers_witness:
  "fst (get_contact_pipeline
          (demo_env\<lparr>httpx_request := (\<lambda>w rq. Inl (TransportError ''timeout''))\<rparr>)
          demo_world demo_api ''42'') = Inr (PStr [])
   \<and> fst (send_sms
          (demo_env\<lparr>httpx_request := (\<lambda>w rq. Inl (TransportError ''timeout''))\<rparr>)
          demo_world demo_api ''42'' ''hello'') = Inr False
   \<and> (\<exists>x'. fst (make_request
          (demo_env\<lparr>httpx_request := (\<lambda>w rq. Inl (TransportError ''timeout''))\<rparr>)
          demo_world demo_api ''GET'' ''contacts/42'' []) = Inl x')
   \<and> fst (get_contact_pipeline
          (demo_env\<lparr>httpx_request :=
             (\<lambda>w rq. Inr \<lparr>status_code = 200, json_body = Some (PList [])\<rparr>)\<rparr>)
          demo_world demo_api ''42'') = Inr (PStr [])"
proof -
  let ?e = "demo_env\<lparr>httpx_request := (\<lambda>w rq. Inl (TransportError ''timeout''))\<rparr>"
  let ?f = "demo_env\<lparr>httpx_request :=
             (\<lambda>w rq. Inr \<lparr>status_code = 200, json_body = Some (PList [])\<rparr>)\<rparr>"
  have get: "fst (make_request ?e demo_world demo_api ''GET'' (''contacts/'' @ ''42'') [])
               = Inl (TransportError ''timeout'')"
    by (simp add: make_request_def)
  have sms: "fst (make_request ?e demo_world demo_api ''POST'' ''conversations/messages''
              [(''json'',
                PDict [(''contactId'', PStr ''42''), (''message'', PStr ''hello''),
                       (''type'', PStr ''SMS''), (''direction'', PStr ''outbound'')])])
               = Inl (TransportError ''timeout'')"
    by (simp add: make_request_def)
  have lst: "fst (make_request ?f demo_world demo_api ''GET'' (''contacts/'' @ ''42'') [])
               = Inr (PList [])"
    by (simp add: make_request_def checked_json_def httpx_raise_for_status_def
          response_json_def)
  have a: "fst (get_contact_pipeline ?e demo_world demo_api ''42'') = Inr (PStr [])
           \<and> fst (send_sms ?e demo_world demo_api ''42'' ''hello'') = Inr False
           \<and> (\<exists>x'. fst (make_request ?e demo_world demo_api ''GET'' ''contacts/42'' []) = Inl x')"
    using best_effort_wrappers
      [of ?e demo_world demo_api "''42''" "''hello''" "TransportError ''timeout''"] get sms
    by simp
  have b: "fst (get_contact_pipeline ?f demo_world demo_api ''42'') = Inr (PStr [])"
    using best_effort_wrappers
      [of ?f demo_world demo_api "''42''" _ _ "PList []"] lst
    by simp
  from a b show ?thesis by simp
qed

subsection \<open>The authorization helper: class GHLClient\<close>

text \<open>
  C7. \<open>get_authorization_url\<close> joins the parameter values as they are. For a
  redirect URI with a query of its own the produced URL is the one below, and cutting
  its query into fields gives a \<open>redirect_uri\<close> that stops at the first \<open>&\<close>: the
  value supplied is not recovered.
\<close>

theorem get_authorization_url_unencoded:
  "get_authorization_url ghlclient_init ''abc''
      ''https://bot.example/cb?tenant=1&env=prod'' None
     = ''https://marketplace.gohighlevel.com/oauth/authorize?client_id=abc&redirect_uri=https://bot.example/cb?tenant=1&env=prod&response_type=code&scope=contacts.readonly contacts.write conversations.readonly conversations.write locations.readonly locations.write opportunities.readonly opportunities.write users.readonly users.write''
   \<and> map_of (query_pairs (get_authorization_url ghlclient_init ''abc''
        ''https://bot.example/cb?tenant=1&env=prod'' None)) ''redirect_uri''
     = Some ''https://bot.example/cb?tenant=1''"
  by (simp add: get_authorization_url_def ghlclient_init_def query_pairs_def)

text \<open>
  C9, as the code has it. \<open>exchange_code_for_token\<close> posts once, never opens a
  database session and leaves the table as it is. It raises what the transport raised,
  raises the HTTP error of a status from 400 to 599, raises the decoding error of a body
  that is not JSON, and otherwise returns the decoded body as it is, whatever its fields.
\<close>

theorem exchange_code_for_token_outcomes:
  "tokens (snd (exchange_code_for_token e w self code cid csecret uri)) = tokens w
   \<and> db_sessions (snd (exchange_code_for_token e w self code cid csecret uri)) = db_sessions w
   \<and> posts (snd (exchange_code_for_token e w self code cid csecret uri))
       = posts w @ [exchange_post self code cid csecret uri]
   \<and> (requests_post e w (exchange_post self code cid csecret uri) = Inl x \<longrightarrow>
        fst (exchange_code_for_token e w self code cid csecret uri) = Inl x)
   \<and> (requests_post e w (exchange_post self code cid csecret uri) = Inr resp
        \<and> 400 \<le> status_code resp \<and> status_code resp < 600 \<longrightarrow>
        fst (exchange_code_for_token e w self code cid csecret uri)
          = Inl (HTTPError (status_code resp)))
   \<and> (requests_post e w (exchange_post self code cid csecret uri) = Inr resp
        \<and> \<not> (400 \<le> status_code resp \<and> status_code resp < 600)
        \<and> json_body resp = None \<longrightarrow>
        fst (exchange_code_for_token e w self code cid csecret uri) = Inl JSONDecodeError)
   \<and> (requests_post e w (exchange_post self code cid csecret uri) = Inr resp
        \<and> \<not> (400 \<le> status_code resp \<and> status_code resp < 600)
        \<and> json_body resp = Some v \<longrightarrow>
        fst (exchange_code_for_token e w self code cid csecret uri) = Inr v)"
  by (auto simp: exchange_code_for_token_def Let_def requests_raise_for_status_def
        response_json_def
      split: sum.splits option.splits)

text \<open>One input for each of the four outcomes.\<close>

theorem exchange_code_for_token_outcomes_witness:
  "fst (exchange_code_for_token
          (demo_env\<lparr>requests_post := (\<lambda>w p. Inl (TransportError ''connection reset''))\<rparr>)
          demo_world ghlclient_init ''code'' ''client'' ''secret'' ''https://bot.example/cb'')
     = Inl (TransportError ''connection reset'')
   \<and> fst (exchange_code_for_token
          (demo_env\<lparr>requests_post :=
             token_response 400 (Some (PDict [(''error'', PStr ''invalid_grant'')]))\<rparr>)
          demo_world ghlclient_init ''code'' ''client'' ''secret'' ''https://bot.example/cb'')
     = Inl (HTTPError 400)
   \<and> fst (exchange_code_for_token
          (demo_env\<lparr>requests_post := token_response 200 None\<rparr>)
          demo_world ghlclient_init ''code'' ''client'' ''secret'' ''https://bot.example/cb'')
     = Inl JSONDecodeError
   \<and> fst (exchange_code_for_token demo_env
          demo_world ghlclient_init ''code'' ''client'' ''secret'' ''https://bot.example/cb'')
     = Inr (PDict [(''access_token'', PStr ''A2''), (''refresh_token'', PStr ''R2'')])"
proof -
  have a: "fst (exchange_code_for_token
          (demo_env\<lparr>requests_post := (\<lambda>w p. Inl (TransportError ''connection reset''))\<rparr>)
          demo_world ghlclient_init ''code'' ''client'' ''secret'' ''https://bot.example/cb'')
     = Inl (TransportError ''connection reset'')"
    using exchange_code_for_token_outcomes
      [of "demo_env\<lparr>requests_post := (\<lambda>w p. Inl (TransportError ''connection reset''))\<rparr>"
          demo_world ghlclient_init "''code''" "''client''" "''secret''"
          "''https://bot.example/cb''" "TransportError ''connection reset''"]
    by simp
  have b: "fst (exchange_code_for_token
          (demo_env\<lparr>requests_post :=
             token_response 400 (Some (PDict [(''error'', PStr ''invalid_grant'')]))\<rparr>)
          demo_world ghlclient_init ''code'' ''client'' ''secret'' ''https://bot.example/cb'')
     = Inl (HTTPError 400)"
    using exchange_code_for_token_outcomes
      [of "demo_env\<lparr>requests_post :=
             token_response 400 (Some (PDict [(''error'', PStr ''invalid_grant'')]))\<rparr>"
          demo_world ghlclient_init "''code''" "''client''" "''secret''"
          "''https://bot.example/cb''" _
          "\<lparr>status_code = 400,
            json_body = Some (PDict [(''error'', PStr ''invalid_grant'')])\<rparr>"]
    by (simp add: token_response_def)
  have c: "fst (exchange_code_for_token
          (demo_env\<lparr>requests_post := token_response 200 None\<rparr>)
          demo_world ghlclient_init ''code'' ''client'' ''secret'' ''https://bot.example/cb'')
     = Inl JSONDecodeError"
    using exchange_code_for_token_outcomes
      [of "demo_env\<lparr>requests_post := token_response 200 None\<rparr>"
          demo_world ghlclient_init "''code''" "''client''" "''secret''"
          "''https://bot.example/cb''" _
          "\<lparr>status_code = 200, json_body = None\<rparr>"]
    by (simp add: token_response_def)
  have d: "fst (exchange_code_for_token demo_env
          demo_world ghlclient_init ''code'' ''client'' ''secret'' ''https://bot.example/cb'')
     = Inr (PDict [(''access_token'', PStr ''A2''), (''refresh_token'', PStr ''R2'')])"
    using exchange_code_for_token_outcomes
      [of demo_env demo_world ghlclient_init "''code''" "''client''" "''secret''"
          "''https://bot.example/cb''" _
          "\<lparr>status_code = 200,
            json_body = Some (PDict [(''access_token'', PStr ''A2''),
                                     (''refresh_token'', PStr ''R2'')])\<rparr>"
          "PDict [(''access_token'', PStr ''A2''), (''refresh_token'', PStr ''R2'')]"]
    by (simp add: demo_env_def)
  from a b c d show ?thesis by simp
qed

text \<open>
  C9 as the spec states it fails: a response of status 200 whose JSON body has no token
  field is returned to the caller, not raised; so is a response of status 300.
\<close>

theorem exchange_error_counterexample:
  "fst (exchange_code_for_token
          (demo_env\<lparr>requests_post :=
             token_response 200 (Some (PDict [(''error'', PStr ''invalid_request'')]))\<rparr>)
          demo_world ghlclient_init ''code'' ''client'' ''secret'' ''https://bot.example/cb'')
     = Inr (PDict [(''error'', PStr ''invalid_request'')])
   \<and> fst (exchange_code_for_token
          (demo_env\<lparr>requests_post := token_response 300 (Some (PDict []))\<rparr>)
          demo_world ghlclient_init ''code'' ''client'' ''secret'' ''https://bot.example/cb'')
     = Inr (PDict [])"
  by (simp add: exchange_code_for_token_def requests_raise_for_status_def
        response_json_def token_response_def)

end
